theory Spec2Isabelle
  imports Main "HOL-Library.Word" "HOL-Library.Char_ord" "HOL-Library.List_Lexorder"
begin

section \<open>Data model of ClockHandler\<close>

text \<open>
  \<^verbatim>\<open>time_t\<close> is \<^verbatim>\<open>long\<close> (the source casts \<^verbatim>\<open>LONG_MIN\<close> to it); on the LP64
  targets it is a 64-bit two's-complement integer. Arithmetic is modelled with
  wrap-around, comparison \<^verbatim>\<open>>=\<close> is the signed one (\<^const>\<open>word_sle\<close>).
  \<^verbatim>\<open>int priority\<close> is a 32-bit integer; it is only stored and copied.
\<close>

type_synonym time_t = "64 word"

definition invalidTime :: time_t where
  "invalidTime = - 1"

definition invalidOffset :: time_t where
  "invalidOffset = - 9223372036854775808"

definition manual :: string where
  "manual = ''manual''"

definition micom :: string where
  "micom = ''micom''"

definition system :: string where
  "system = ''system''"

text \<open>
  \<^verbatim>\<open>struct Clock { int priority; time_t systemOffset; time_t lastUpdate; }\<close>,
  in the order of the aggregate initialiser used by \<^verbatim>\<open>setup\<close>.
\<close>

record Clock =
  priority :: "32 word"
  systemOffset :: time_t
  lastUpdate :: time_t

text \<open>
  \<^verbatim>\<open>ClocksMap\<close> is a \<^verbatim>\<open>std::map<std::string, Clock>\<close>: an association list that
  is iterated from its head, with \<^verbatim>\<open>insert\<close> placing a new key in key order and
  leaving an existing key alone.
\<close>

type_synonym ClocksMap = "(string \<times> Clock) list"

record ClockHandler =
  m_clocks :: ClocksMap
  m_manualOverride :: bool

text \<open>One call of \<^verbatim>\<open>clockChanged.fire(tag, priority, systemOffset, lastUpdate)\<close>.\<close>

type_synonym event = "string \<times> 32 word \<times> time_t \<times> time_t"

text \<open>A failed \<^verbatim>\<open>assert\<close> ends the process; it carries the events fired before it.\<close>

datatype error = AssertionFailed "event list"

subsection \<open>The map operations used by the handler\<close>

text \<open>\<^verbatim>\<open>m_clocks.find(tag)\<close>: the iterator as the (key, value) pair it points to.\<close>

fun find_clock :: "string \<Rightarrow> ClocksMap \<Rightarrow> (string \<times> Clock) option" where
  "find_clock tag [] = None"
| "find_clock tag ((k, c) # rest) =
     (if k = tag then Some (k, c) else find_clock tag rest)"

text \<open>Writing through the iterator returned by \<^verbatim>\<open>find\<close>: \<^verbatim>\<open>it->second = f(it->second)\<close>.\<close>

fun modify_clock :: "string \<Rightarrow> (Clock \<Rightarrow> Clock) \<Rightarrow> ClocksMap \<Rightarrow> ClocksMap" where
  "modify_clock tag f [] = []"
| "modify_clock tag f ((k, c) # rest) =
     (if k = tag then (k, f c) # rest else (k, c) # modify_clock tag f rest)"

text \<open>\<^verbatim>\<open>m_clocks.insert(value_type(tag, clock))\<close>.\<close>

fun insert_clock :: "string \<Rightarrow> Clock \<Rightarrow> ClocksMap \<Rightarrow> ClocksMap" where
  "insert_clock tag clock [] = [(tag, clock)]"
| "insert_clock tag clock ((k, c) # rest) =
     (if tag < k then (tag, clock) # (k, c) # rest
      else if tag = k then (k, c) # rest
      else (k, c) # insert_clock tag clock rest)"

section \<open>The operations\<close>

text \<open>
  Every operation takes the handler and returns the new one. \<open>now\<close> is what
  \<^verbatim>\<open>time(0)\<close> returns during the call. Logging is left out.
\<close>

subsection \<open>\<^verbatim>\<open>ClockHandler::setup\<close> and the constructor\<close>

definition setup_clock ::
  "time_t \<Rightarrow> string \<Rightarrow> 32 word \<Rightarrow> time_t \<Rightarrow> ClockHandler \<Rightarrow> ClockHandler" where
  "setup_clock now clockTag prio offset h =
     (case find_clock clockTag (m_clocks h) of
        Some it \<Rightarrow>
          h\<lparr>m_clocks := modify_clock clockTag
               (\<lambda>c. if offset \<noteq> invalidOffset
                    then c\<lparr>priority := prio, systemOffset := offset, lastUpdate := now\<rparr>
                    else c\<lparr>priority := prio\<rparr>)
               (m_clocks h)\<rparr>
      | None \<Rightarrow>
          h\<lparr>m_clocks := insert_clock clockTag
               \<lparr>priority = prio, systemOffset = offset, lastUpdate = invalidTime\<rparr>
               (m_clocks h)\<rparr>)"

text \<open>
  The constructor: \<^verbatim>\<open>m_manualOverride(false)\<close>, then \<^verbatim>\<open>setup(manual, 0)\<close> with the
  default \<^verbatim>\<open>offset = invalidOffset\<close>.
\<close>

definition ClockHandler_ctor :: "time_t \<Rightarrow> ClockHandler" where
  "ClockHandler_ctor now =
     setup_clock now manual 0 invalidOffset \<lparr>m_clocks = [], m_manualOverride = False\<rparr>"

subsection \<open>\<^verbatim>\<open>ClockHandler::adjust\<close>\<close>

text \<open>The body of the loop, for one entry.\<close>

definition adjust_clock :: "time_t \<Rightarrow> Clock \<Rightarrow> Clock" where
  "adjust_clock offset c =
     (if systemOffset c = invalidOffset then c
      else if lastUpdate c \<noteq> invalidTime
        then c\<lparr>systemOffset := systemOffset c - offset, lastUpdate := lastUpdate c + offset\<rparr>
        else c\<lparr>systemOffset := systemOffset c - offset\<rparr>)"

definition adjust :: "time_t \<Rightarrow> ClockHandler \<Rightarrow> ClockHandler" where
  "adjust offset h =
     h\<lparr>m_clocks := map (\<lambda>(k, c). (k, adjust_clock offset c)) (m_clocks h)\<rparr>"

subsection \<open>\<^verbatim>\<open>ClockHandler::manualOverride\<close>\<close>

text \<open>
  The re-sending loop over the map; \<open>fired\<close> collects the events fired so far.
  The \<^verbatim>\<open>assert\<close> is kept as the source writes it.
\<close>

fun resend :: "ClocksMap \<Rightarrow> event list \<Rightarrow> error + event list" where
  "resend [] fired = Inr fired"
| "resend ((tag, clock) # rest) fired =
     (if lastUpdate clock = invalidTime then resend rest fired
      else if \<not> (lastUpdate clock = invalidTime \<or> systemOffset clock \<noteq> invalidOffset)
        then Inl (AssertionFailed fired)
      else resend rest
             (fired @ [(tag, priority clock, systemOffset clock, lastUpdate clock)]))"

definition manualOverride :: "bool \<Rightarrow> ClockHandler \<Rightarrow> error + (event list \<times> ClockHandler)" where
  "manualOverride enabled h =
     (if m_manualOverride h = enabled then Inr ([], h)
      else if \<not> enabled then
        (case resend (m_clocks h) [] of
           Inl e \<Rightarrow> Inl e
         | Inr fired \<Rightarrow> Inr (fired, h\<lparr>m_manualOverride := enabled\<rparr>))
      else Inr ([], h\<lparr>m_manualOverride := enabled\<rparr>))"

subsection \<open>\<^verbatim>\<open>ClockHandler::update\<close>\<close>

text \<open>
  The result is the returned \<^verbatim>\<open>bool\<close>, the events fired and the new handler.
  \<open>store_update\<close> is the tail of the function, reached when the update is
  accepted: it writes \<^verbatim>\<open>lastUpdate\<close> and \<^verbatim>\<open>systemOffset\<close> and fires the event.
\<close>

definition store_update ::
  "string \<times> Clock \<Rightarrow> time_t \<Rightarrow> time_t \<Rightarrow> ClockHandler \<Rightarrow> bool \<times> event list \<times> ClockHandler" where
  "store_update it offset timeStamp h =
     (True,
      [(fst it, priority (snd it), offset, timeStamp)],
      h\<lparr>m_clocks := modify_clock (fst it)
           (\<lambda>c. c\<lparr>lastUpdate := timeStamp, systemOffset := offset\<rparr>)
           (m_clocks h)\<rparr>)"

definition update ::
  "time_t \<Rightarrow> time_t \<Rightarrow> string \<Rightarrow> time_t \<Rightarrow> ClockHandler \<Rightarrow> bool \<times> event list \<times> ClockHandler" where
  "update now offset clockTag timeStamp h =
     (case find_clock clockTag (m_clocks h) of
        None \<Rightarrow> (False, [], h)
      | Some it \<Rightarrow>
          (let prevTimeStamp = lastUpdate (snd it) in
           if timeStamp = invalidTime then store_update it offset now h
           else if prevTimeStamp \<noteq> invalidTime \<and> word_sle timeStamp prevTimeStamp
             then (True, [], h)
           else store_update it offset timeStamp h))"

text \<open>
  \<^verbatim>\<open>ClockHandler::cbSetTime\<close> after parsing: the offset is \<^verbatim>\<open>utc - time(0)\<close>, the
  time stamp is left at its default; the result is the reply's \<^verbatim>\<open>returnValue\<close>.
\<close>

definition cbSetTime ::
  "time_t \<Rightarrow> string \<Rightarrow> time_t \<Rightarrow> ClockHandler \<Rightarrow> bool \<times> event list \<times> ClockHandler" where
  "cbSetTime now src utcInteger h = update now (utcInteger - now) src invalidTime h"

subsection \<open>\<^verbatim>\<open>ClockHandler::cbGetTime\<close>\<close>

text \<open>
  The reply object, one optional field for each key the function may put:
  \<open>offsetValue\<close> stands for \<^verbatim>\<open>offset.value\<close> (\<^verbatim>\<open>offset.source\<close> is always
  \<^verbatim>\<open>"system"\<close>). \<^verbatim>\<open>createJsonReply(ok, 0, text)\<close> is taken to set \<^verbatim>\<open>returnValue\<close>
  and \<^verbatim>\<open>errorText\<close>.
\<close>

record reply =
  returnValue :: bool
  errorText :: "string option"
  source :: string
  offsetValue :: "time_t option"
  utc :: "time_t option"
  replyPriority :: "32 word option"
  systemTimeSource :: "string option"

text \<open>
  The test of lines 292-296: manual override requested, the handler's flag set, and
  the \<^verbatim>\<open>manual\<close> clock registered with an offset.
\<close>

definition manual_forced :: "bool \<Rightarrow> ClockHandler \<Rightarrow> bool" where
  "manual_forced wantManualOverride handler =
     (wantManualOverride \<and> m_manualOverride handler \<and>
      (case find_clock manual (m_clocks handler) of
         None \<Rightarrow> False
       | Some it \<Rightarrow> systemOffset (snd it) \<noteq> invalidOffset))"

text \<open>The three-way reply at the end of the function (lines 327-364).\<close>

definition make_reply ::
  "time_t \<Rightarrow> string \<Rightarrow> bool \<Rightarrow> string \<Rightarrow> (string \<times> Clock) option \<Rightarrow> reply" where
  "make_reply now sysTimeSource isSystem src it =
     (if isSystem then
        \<lparr>returnValue = True, errorText = None, source = system, offsetValue = Some 0,
         utc = Some now, replyPriority = None, systemTimeSource = Some sysTimeSource\<rparr>
      else case it of
        None \<Rightarrow>
          \<lparr>returnValue = False, errorText = Some ''Requested clock is not registered'',
           source = src, offsetValue = None, utc = None, replyPriority = None,
           systemTimeSource = None\<rparr>
      | Some (tag, clock) \<Rightarrow>
          if systemOffset clock = invalidOffset then
            \<lparr>returnValue = False, errorText = Some ''No time available for that clock'',
             source = tag, offsetValue = None, utc = None,
             replyPriority = Some (priority clock), systemTimeSource = None\<rparr>
          else
            \<lparr>returnValue = True, errorText = None, source = tag,
             offsetValue = Some (systemOffset clock), utc = Some (now + systemOffset clock),
             replyPriority = Some (priority clock), systemTimeSource = None\<rparr>)"

text \<open>
  The function after parsing: \<open>src\<close> and \<open>wantManualOverride\<close> are the parsed
  \<^verbatim>\<open>source\<close> and \<^verbatim>\<open>manualOverride\<close>, \<open>fallback\<close> is \<open>None\<close> when
  \<^verbatim>\<open>haveFallback\<close> is false; \<open>sysTimeSource\<close> is what
  \<^verbatim>\<open>TimePrefsHandler::instance()->getSystemTimeSource()\<close> returns.
\<close>

definition cbGetTime ::
  "time_t \<Rightarrow> string \<Rightarrow> string \<Rightarrow> bool \<Rightarrow> string option \<Rightarrow> ClockHandler \<Rightarrow> reply" where
  "cbGetTime now sysTimeSource src wantManualOverride fallback handler =
     (let forced = manual_forced wantManualOverride handler;
          source1 = (if forced then manual else src);
          isSystem1 = (if forced then False else src = system);
          fallback1 = (if forced then None else fallback);
          it1 = find_clock source1 (m_clocks handler)
      in case fallback1 of
           Some fb \<Rightarrow>
             if (case it1 of None \<Rightarrow> True
                 | Some it \<Rightarrow> systemOffset (snd it) = invalidOffset) \<and> \<not> isSystem1
             then make_reply now sysTimeSource (fb = system) fb
                    (find_clock fb (m_clocks handler))
             else make_reply now sysTimeSource isSystem1 source1 it1
         | None \<Rightarrow> make_reply now sysTimeSource isSystem1 source1 it1)"

section \<open>Sequences of calls\<close>

datatype call =
    Setup string "32 word" time_t
  | Update time_t string time_t
  | Adjust time_t
  | ManualOverride bool
  | GetTime string string bool "string option"

text \<open>One call at process time \<open>now\<close>; \<open>None\<close> when an assertion ends the process.\<close>

fun step :: "time_t \<Rightarrow> call \<Rightarrow> ClockHandler \<Rightarrow> ClockHandler option" where
  "step now (Setup clockTag prio off) h = Some (setup_clock now clockTag prio off h)"
| "step now (Update off clockTag timeStamp) h =
     Some (snd (snd (update now off clockTag timeStamp h)))"
| "step now (Adjust off) h = Some (adjust off h)"
| "step now (ManualOverride enabled) h =
     (case manualOverride enabled h of Inl e \<Rightarrow> None | Inr r \<Rightarrow> Some (snd r))"
| "step now (GetTime sysTimeSource src wantManualOverride fallback) h = Some h"

fun run :: "(time_t \<times> call) list \<Rightarrow> ClockHandler \<Rightarrow> ClockHandler option" where
  "run [] h = Some h"
| "run ((now, c) # rest) h =
     (case step now c h of None \<Rightarrow> None | Some h' \<Rightarrow> run rest h')"

section \<open>Predicates used to state the properties\<close>

text \<open>A source "has data" when it is registered and its \<^verbatim>\<open>lastUpdate\<close> is set.\<close>

definition has_data :: "string \<Rightarrow> ClockHandler \<Rightarrow> bool" where
  "has_data tag h =
     (case find_clock tag (m_clocks h) of
        None \<Rightarrow> False
      | Some it \<Rightarrow> lastUpdate (snd it) \<noteq> invalidTime)"

text \<open>
  The "invariant of Clock" that \<^verbatim>\<open>manualOverride\<close> asserts (lines 112-113), for
  every entry of the map.
\<close>

definition clock_invariant :: "ClockHandler \<Rightarrow> bool" where
  "clock_invariant h =
     list_all (\<lambda>it. lastUpdate (snd it) = invalidTime \<or> systemOffset (snd it) \<noteq> invalidOffset)
       (m_clocks h)"

text \<open>The events of the re-sending loop when no assertion fails.\<close>

definition resent_events :: "ClocksMap \<Rightarrow> event list" where
  "resent_events m =
     map (\<lambda>it. (fst it, priority (snd it), systemOffset (snd it), lastUpdate (snd it)))
       (filter (\<lambda>it. lastUpdate (snd it) \<noteq> invalidTime) m)"

text \<open>Whether a call is \<^verbatim>\<open>setup\<close> of the given tag.\<close>

fun is_setup_of :: "string \<Rightarrow> call \<Rightarrow> bool" where
  "is_setup_of tag (Setup clockTag prio off) = (clockTag = tag)"
| "is_setup_of tag c = False"

section \<open>Facts about the map operations\<close>

lemma find_clock_key: "find_clock t m = Some it \<Longrightarrow> fst it = t"
  by (induction m) (auto split: if_splits)

lemma find_modify:
  "find_clock t (modify_clock k f m) =
     (if t = k then map_option (\<lambda>it. (fst it, f (snd it))) (find_clock t m)
      else find_clock t m)"
  by (induction m) auto

lemma find_insert:
  "find_clock k m = None \<Longrightarrow>
   find_clock t (insert_clock k v m) = (if t = k then Some (k, v) else find_clock t m)"
  by (induction m) (auto split: if_splits)

lemma find_map:
  "find_clock t (map (\<lambda>(k, c). (k, g c)) m) =
     map_option (\<lambda>it. (fst it, g (snd it))) (find_clock t m)"
  by (induction m) auto

lemma ctor_eq:
  "ClockHandler_ctor n =
     \<lparr>m_clocks = [(manual, \<lparr>priority = 0, systemOffset = invalidOffset,
                            lastUpdate = invalidTime\<rparr>)],
      m_manualOverride = False\<rparr>"
  by (simp add: ClockHandler_ctor_def setup_clock_def)

section \<open>Resolution: manual override and fallback\<close>

text \<open>
  C1. When \<^verbatim>\<open>getTime\<close> is called with \<^verbatim>\<open>manualOverride\<close> true while the handler's
  override flag is set and the \<^verbatim>\<open>manual\<close> clock has an offset, the reply is the one
  of the manual clock: labelled \<^verbatim>\<open>manual\<close>, never the system reply, and the same
  whatever the requested source and the fallback are. When the manual clock is missing
  or has no offset, nothing is forced: the reply is the one of the same call without
  the override request, it is made from the requested source and its entry (or from
  the fallback, when one was given, the requested source is not \<^verbatim>\<open>system\<close> and it is
  missing or has no offset); so a registered requested source with an offset is
  answered with its own label, offset and priority, and \<^verbatim>\<open>system\<close> with the system
  reply. After the constructor, \<^verbatim>\<open>manualOverride(true)\<close> and \<^verbatim>\<open>update(5, manual)\<close>,
  the clock \<^verbatim>\<open>micom\<close> is not registered and \<^verbatim>\<open>getTime(micom, true)\<close> succeeds with
  source \<^verbatim>\<open>manual\<close>.
\<close>

theorem cbGetTime_manual_override:
  "(m_manualOverride h \<and> find_clock manual (m_clocks h) = Some it
      \<and> systemOffset (snd it) \<noteq> invalidOffset \<longrightarrow>
    cbGetTime now sts src True fallback h =
      \<lparr>returnValue = True, errorText = None, source = manual,
       offsetValue = Some (systemOffset (snd it)), utc = Some (now + systemOffset (snd it)),
       replyPriority = Some (priority (snd it)), systemTimeSource = None\<rparr>)
   \<and> (m_manualOverride h
        \<and> (case find_clock manual (m_clocks h) of
              None \<Rightarrow> True | Some it' \<Rightarrow> systemOffset (snd it') = invalidOffset) \<longrightarrow>
      cbGetTime now sts src True fallback h = cbGetTime now sts src False fallback h
      \<and> cbGetTime now sts src True fallback h =
          (case fallback of
             None \<Rightarrow> make_reply now sts (src = system) src (find_clock src (m_clocks h))
           | Some fb \<Rightarrow>
               if (case find_clock src (m_clocks h) of
                     None \<Rightarrow> True
                   | Some it1 \<Rightarrow> systemOffset (snd it1) = invalidOffset) \<and> src \<noteq> system
               then make_reply now sts (fb = system) fb (find_clock fb (m_clocks h))
               else make_reply now sts (src = system) src (find_clock src (m_clocks h)))
      \<and> (src \<noteq> system \<and> find_clock src (m_clocks h) = Some its
           \<and> systemOffset (snd its) \<noteq> invalidOffset \<longrightarrow>
          cbGetTime now sts src True fallback h =
            \<lparr>returnValue = True, errorText = None, source = src,
             offsetValue = Some (systemOffset (snd its)),
             utc = Some (now + systemOffset (snd its)),
             replyPriority = Some (priority (snd its)), systemTimeSource = None\<rparr>)
      \<and> (src = system \<longrightarrow>
          cbGetTime now sts src True fallback h =
            \<lparr>returnValue = True, errorText = None, source = system, offsetValue = Some 0,
             utc = Some now, replyPriority = None, systemTimeSource = Some sts\<rparr>))
   \<and> (run [(t1, ManualOverride True), (t2, Update 5 manual invalidTime)]
          (ClockHandler_ctor t0) = Some hs \<longrightarrow>
      find_clock micom (m_clocks hs) = None
      \<and> returnValue (cbGetTime now sts micom True None hs)
      \<and> source (cbGetTime now sts micom True None hs) = manual)"
proof (intro conjI impI)
  assume a: "m_manualOverride h \<and> find_clock manual (m_clocks h) = Some it
      \<and> systemOffset (snd it) \<noteq> invalidOffset"
  then have "fst it = manual"
    using find_clock_key by blast
  with a show "cbGetTime now sts src True fallback h =
      \<lparr>returnValue = True, errorText = None, source = manual,
       offsetValue = Some (systemOffset (snd it)), utc = Some (now + systemOffset (snd it)),
       replyPriority = Some (priority (snd it)), systemTimeSource = None\<rparr>"
    by (cases it) (simp add: cbGetTime_def manual_forced_def make_reply_def)
next
  assume "m_manualOverride h
        \<and> (case find_clock manual (m_clocks h) of
              None \<Rightarrow> True | Some it' \<Rightarrow> systemOffset (snd it') = invalidOffset)"
  then have "\<not> manual_forced True h"
    by (auto simp add: manual_forced_def split: option.splits)
  moreover have "\<not> manual_forced False h"
    by (simp add: manual_forced_def)
  ultimately show
    "cbGetTime now sts src True fallback h = cbGetTime now sts src False fallback h"
    by (simp add: cbGetTime_def)
next
  assume "m_manualOverride h
        \<and> (case find_clock manual (m_clocks h) of
              None \<Rightarrow> True | Some it' \<Rightarrow> systemOffset (snd it') = invalidOffset)"
  then have "\<not> manual_forced True h"
    by (auto simp add: manual_forced_def split: option.splits)
  then show "cbGetTime now sts src True fallback h =
          (case fallback of
             None \<Rightarrow> make_reply now sts (src = system) src (find_clock src (m_clocks h))
           | Some fb \<Rightarrow>
               if (case find_clock src (m_clocks h) of
                     None \<Rightarrow> True
                   | Some it1 \<Rightarrow> systemOffset (snd it1) = invalidOffset) \<and> src \<noteq> system
               then make_reply now sts (fb = system) fb (find_clock fb (m_clocks h))
               else make_reply now sts (src = system) src (find_clock src (m_clocks h)))"
    by (simp add: cbGetTime_def Let_def split: option.splits)
next
  assume "m_manualOverride h
        \<and> (case find_clock manual (m_clocks h) of
              None \<Rightarrow> True | Some it' \<Rightarrow> systemOffset (snd it') = invalidOffset)"
  then have nf: "\<not> manual_forced True h"
    by (auto simp add: manual_forced_def split: option.splits)
  assume b: "src \<noteq> system \<and> find_clock src (m_clocks h) = Some its
           \<and> systemOffset (snd its) \<noteq> invalidOffset"
  then have "fst its = src"
    using find_clock_key by blast
  with nf b show "cbGetTime now sts src True fallback h =
            \<lparr>returnValue = True, errorText = None, source = src,
             offsetValue = Some (systemOffset (snd its)),
             utc = Some (now + systemOffset (snd its)),
             replyPriority = Some (priority (snd its)), systemTimeSource = None\<rparr>"
    by (cases its) (simp add: cbGetTime_def make_reply_def Let_def split: option.splits)
next
  assume "m_manualOverride h
        \<and> (case find_clock manual (m_clocks h) of
              None \<Rightarrow> True | Some it' \<Rightarrow> systemOffset (snd it') = invalidOffset)"
  then have nf: "\<not> manual_forced True h"
    by (auto simp add: manual_forced_def split: option.splits)
  assume "src = system"
  with nf show "cbGetTime now sts src True fallback h =
            \<lparr>returnValue = True, errorText = None, source = system, offsetValue = Some 0,
             utc = Some now, replyPriority = None, systemTimeSource = Some sts\<rparr>"
    by (simp add: cbGetTime_def make_reply_def Let_def split: option.splits)
next
  assume r: "run [(t1, ManualOverride True), (t2, Update 5 manual invalidTime)]
          (ClockHandler_ctor t0) = Some hs"
  have hs: "hs = \<lparr>m_clocks = [(manual, \<lparr>priority = 0, systemOffset = 5, lastUpdate = t2\<rparr>)],
                 m_manualOverride = True\<rparr>"
    using r by (simp add: ctor_eq manualOverride_def update_def store_update_def)
  show "find_clock micom (m_clocks hs) = None"
    by (simp add: hs manual_def micom_def)
  show "returnValue (cbGetTime now sts micom True None hs)"
    by (simp add: hs cbGetTime_def manual_forced_def make_reply_def invalidOffset_def)
  show "source (cbGetTime now sts micom True None hs) = manual"
    by (simp add: hs cbGetTime_def manual_forced_def make_reply_def invalidOffset_def)
qed

theorem cbGetTime_manual_override_witness:
  "cbGetTime 1000 ''ntp'' system True (Some micom)
     \<lparr>m_clocks = [(manual, \<lparr>priority = 0, systemOffset = 5, lastUpdate = 900\<rparr>)],
      m_manualOverride = True\<rparr> =
     \<lparr>returnValue = True, errorText = None, source = manual,
      offsetValue = Some 5, utc = Some 1005,
      replyPriority = Some 0, systemTimeSource = None\<rparr>
   \<and> cbGetTime 1000 ''ntp'' micom True (Some system)
       \<lparr>m_clocks = [(manual, \<lparr>priority = 0, systemOffset = invalidOffset,
                              lastUpdate = invalidTime\<rparr>),
                    (micom, \<lparr>priority = 1, systemOffset = 7, lastUpdate = invalidTime\<rparr>)],
        m_manualOverride = True\<rparr> =
     cbGetTime 1000 ''ntp'' micom False (Some system)
       \<lparr>m_clocks = [(manual, \<lparr>priority = 0, systemOffset = invalidOffset,
                              lastUpdate = invalidTime\<rparr>),
                    (micom, \<lparr>priority = 1, systemOffset = 7, lastUpdate = invalidTime\<rparr>)],
        m_manualOverride = True\<rparr>
   \<and> cbGetTime 1000 ''ntp'' micom True (Some system)
       \<lparr>m_clocks = [(manual, \<lparr>priority = 0, systemOffset = invalidOffset,
                              lastUpdate = invalidTime\<rparr>),
                    (micom, \<lparr>priority = 1, systemOffset = 7, lastUpdate = invalidTime\<rparr>)],
        m_manualOverride = True\<rparr> =
     \<lparr>returnValue = True, errorText = None, source = micom,
      offsetValue = Some 7, utc = Some 1007,
      replyPriority = Some 1, systemTimeSource = None\<rparr>
   \<and> run [(10, ManualOverride True), (20, Update 5 manual invalidTime)]
        (ClockHandler_ctor 0) =
       Some \<lparr>m_clocks = [(manual, \<lparr>priority = 0, systemOffset = 5, lastUpdate = 20\<rparr>)],
             m_manualOverride = True\<rparr>
   \<and> source (cbGetTime 1000 ''ntp'' micom True None
        \<lparr>m_clocks = [(manual, \<lparr>priority = 0, systemOffset = 5, lastUpdate = 20\<rparr>)],
         m_manualOverride = True\<rparr>) = manual"
proof -
  have r: "run [(10, ManualOverride True), (20, Update 5 manual invalidTime)]
        (ClockHandler_ctor 0) =
       Some \<lparr>m_clocks = [(manual, \<lparr>priority = 0, systemOffset = 5, lastUpdate = 20\<rparr>)],
             m_manualOverride = True\<rparr>"
    by (simp add: ctor_eq manualOverride_def update_def store_update_def)
  have c1: "cbGetTime 1000 ''ntp'' system True (Some micom)
     \<lparr>m_clocks = [(manual, \<lparr>priority = 0, systemOffset = 5, lastUpdate = 900\<rparr>)],
      m_manualOverride = True\<rparr> =
     \<lparr>returnValue = True, errorText = None, source = manual,
      offsetValue = Some 5, utc = Some 1005,
      replyPriority = Some 0, systemTimeSource = None\<rparr>"
    using cbGetTime_manual_override [where h = "\<lparr>m_clocks = [(manual, \<lparr>priority = 0,
           systemOffset = 5, lastUpdate = 900\<rparr>)], m_manualOverride = True\<rparr>"
         and it = "(manual, \<lparr>priority = 0, systemOffset = 5, lastUpdate = 900\<rparr>)"
         and now = 1000 and sts = "''ntp''" and src = system and fallback = "Some micom"]
    by (simp add: invalidOffset_def)
  have c3: "source (cbGetTime 1000 ''ntp'' micom True None
        \<lparr>m_clocks = [(manual, \<lparr>priority = 0, systemOffset = 5, lastUpdate = 20\<rparr>)],
         m_manualOverride = True\<rparr>) = manual"
    using r cbGetTime_manual_override [where ?t0.0 = 0 and ?t1.0 = 10 and ?t2.0 = 20
         and now = 1000 and sts = "''ntp''"
         and hs = "\<lparr>m_clocks = [(manual, \<lparr>priority = 0, systemOffset = 5,
           lastUpdate = 20\<rparr>)], m_manualOverride = True\<rparr>"]
    by blast
  let ?H = "\<lparr>m_clocks = [(manual, \<lparr>priority = 0, systemOffset = invalidOffset,
                              lastUpdate = invalidTime\<rparr>),
                    (micom, \<lparr>priority = 1, systemOffset = 7, lastUpdate = invalidTime\<rparr>)],
        m_manualOverride = True\<rparr>"
  have hA: "m_manualOverride ?H
        \<and> (case find_clock manual (m_clocks ?H) of
              None \<Rightarrow> True | Some it' \<Rightarrow> systemOffset (snd it') = invalidOffset)"
    by simp
  have hB: "micom \<noteq> system
        \<and> find_clock micom (m_clocks ?H) =
            Some (micom, \<lparr>priority = 1, systemOffset = 7, lastUpdate = invalidTime\<rparr>)
        \<and> systemOffset
            (snd (micom, \<lparr>priority = 1, systemOffset = 7, lastUpdate = invalidTime\<rparr>)) \<noteq>
            invalidOffset"
    by (simp add: manual_def micom_def system_def invalidOffset_def)
  have c2: "cbGetTime 1000 ''ntp'' micom True (Some system) ?H =
     cbGetTime 1000 ''ntp'' micom False (Some system) ?H
   \<and> cbGetTime 1000 ''ntp'' micom True (Some system) ?H =
     \<lparr>returnValue = True, errorText = None, source = micom,
      offsetValue = Some 7, utc = Some 1007,
      replyPriority = Some 1, systemTimeSource = None\<rparr>"
  proof -
    from hA hB
      cbGetTime_manual_override [where h = ?H
         and now = 1000 and sts = "''ntp''" and src = micom and fallback = "Some system"
         and its = "(micom, \<lparr>priority = 1, systemOffset = 7, lastUpdate = invalidTime\<rparr>)"]
    have "cbGetTime 1000 ''ntp'' micom True (Some system) ?H =
        cbGetTime 1000 ''ntp'' micom False (Some system) ?H
      \<and> cbGetTime 1000 ''ntp'' micom True (Some system) ?H =
        \<lparr>returnValue = True, errorText = None, source = micom,
         offsetValue = Some (systemOffset
           (snd (micom, \<lparr>priority = 1, systemOffset = 7, lastUpdate = invalidTime\<rparr>))),
         utc = Some (1000 + systemOffset
           (snd (micom, \<lparr>priority = 1, systemOffset = 7, lastUpdate = invalidTime\<rparr>))),
         replyPriority = Some (priority
           (snd (micom, \<lparr>priority = 1, systemOffset = 7, lastUpdate = invalidTime\<rparr>))),
         systemTimeSource = None\<rparr>"
      by blast
    then have e1: "cbGetTime 1000 ''ntp'' micom True (Some system) ?H =
        cbGetTime 1000 ''ntp'' micom False (Some system) ?H"
      and e2: "cbGetTime 1000 ''ntp'' micom True (Some system) ?H =
        \<lparr>returnValue = True, errorText = None, source = micom,
         offsetValue = Some (systemOffset
           (snd (micom, \<lparr>priority = 1, systemOffset = 7, lastUpdate = invalidTime\<rparr>))),
         utc = Some (1000 + systemOffset
           (snd (micom, \<lparr>priority = 1, systemOffset = 7, lastUpdate = invalidTime\<rparr>))),
         replyPriority = Some (priority
           (snd (micom, \<lparr>priority = 1, systemOffset = 7, lastUpdate = invalidTime\<rparr>))),
         systemTimeSource = None\<rparr>"
      by blast+
    from e2 have "cbGetTime 1000 ''ntp'' micom True (Some system) ?H =
     \<lparr>returnValue = True, errorText = None, source = micom,
      offsetValue = Some 7, utc = Some 1007,
      replyPriority = Some 1, systemTimeSource = None\<rparr>"
      by simp
    with e1 show ?thesis
      by (rule conjI)
  qed
  from c1 c2 r c3 show ?thesis
    by blast
qed

text \<open>
  C4. When a fallback was supplied, the source after the override step is not
  \<^verbatim>\<open>system\<close> and that source is not registered or has no offset, the reply is the one
  of a plain request for the fallback source: the label is the fallback and the system
  reply is chosen by whether the fallback is \<^verbatim>\<open>system\<close>. With \<^verbatim>\<open>micom\<close> not
  registered, \<^verbatim>\<open>getTime(micom, false, fallback = system)\<close> succeeds with offset 0 and
  the current time.
\<close>

theorem cbGetTime_fallback:
  "((if manual_forced wantManualOverride h then manual else src) \<noteq> system
     \<and> (case find_clock (if manual_forced wantManualOverride h then manual else src)
                (m_clocks h) of
          None \<Rightarrow> True | Some it \<Rightarrow> systemOffset (snd it) = invalidOffset) \<longrightarrow>
    cbGetTime now sts src wantManualOverride (Some fb) h = cbGetTime now sts fb False None h
    \<and> cbGetTime now sts src wantManualOverride (Some fb) h =
        make_reply now sts (fb = system) fb (find_clock fb (m_clocks h)))
   \<and> (find_clock micom (m_clocks h) = None \<longrightarrow>
      cbGetTime now sts micom False (Some system) h =
        \<lparr>returnValue = True, errorText = None, source = system, offsetValue = Some 0,
         utc = Some now, replyPriority = None, systemTimeSource = Some sts\<rparr>)"
proof (intro conjI impI)
  assume a: "(if manual_forced wantManualOverride h then manual else src) \<noteq> system
     \<and> (case find_clock (if manual_forced wantManualOverride h then manual else src)
                (m_clocks h) of
          None \<Rightarrow> True | Some it \<Rightarrow> systemOffset (snd it) = invalidOffset)"
  have nf: "\<not> manual_forced wantManualOverride h"
  proof
    assume "manual_forced wantManualOverride h"
    with a show False
      by (auto simp add: manual_forced_def split: option.splits)
  qed
  have nf2: "\<not> manual_forced False h"
    by (simp add: manual_forced_def)
  from a nf show "cbGetTime now sts src wantManualOverride (Some fb) h =
        make_reply now sts (fb = system) fb (find_clock fb (m_clocks h))"
    by (simp add: cbGetTime_def split: option.splits)
  from a nf nf2 show "cbGetTime now sts src wantManualOverride (Some fb) h
      = cbGetTime now sts fb False None h"
    by (simp add: cbGetTime_def split: option.splits)
next
  assume "find_clock micom (m_clocks h) = None"
  then show "cbGetTime now sts micom False (Some system) h =
        \<lparr>returnValue = True, errorText = None, source = system, offsetValue = Some 0,
         utc = Some now, replyPriority = None, systemTimeSource = Some sts\<rparr>"
    by (simp add: cbGetTime_def manual_forced_def make_reply_def micom_def system_def)
qed

theorem cbGetTime_fallback_witness:
  "cbGetTime 1000 ''ntp'' micom True (Some manual)
     \<lparr>m_clocks = [(manual, \<lparr>priority = 0, systemOffset = invalidOffset,
                            lastUpdate = invalidTime\<rparr>)],
      m_manualOverride = True\<rparr> =
     cbGetTime 1000 ''ntp'' manual False None
       \<lparr>m_clocks = [(manual, \<lparr>priority = 0, systemOffset = invalidOffset,
                              lastUpdate = invalidTime\<rparr>)],
        m_manualOverride = True\<rparr>
   \<and> cbGetTime 1000 ''ntp'' micom False (Some system)
       \<lparr>m_clocks = [(manual, \<lparr>priority = 0, systemOffset = invalidOffset,
                              lastUpdate = invalidTime\<rparr>)],
        m_manualOverride = True\<rparr> =
       \<lparr>returnValue = True, errorText = None, source = system, offsetValue = Some 0,
        utc = Some 1000, replyPriority = None, systemTimeSource = Some ''ntp''\<rparr>"
  using
    cbGetTime_fallback [where h = "\<lparr>m_clocks = [(manual, \<lparr>priority = 0,
         systemOffset = invalidOffset, lastUpdate = invalidTime\<rparr>)],
         m_manualOverride = True\<rparr>"
       and now = 1000 and sts = "''ntp''" and src = micom and wantManualOverride = True
       and fb = manual]
  by (simp add: manual_forced_def manual_def micom_def system_def)

section \<open>Updates\<close>

text \<open>
  C3. An \<^verbatim>\<open>update\<close> of a registered source with an explicit time stamp (not the
  sentinel) that is not greater than the source's valid \<^verbatim>\<open>lastUpdate\<close> leaves the
  handler as it was (every offset, \<^verbatim>\<open>lastUpdate\<close> and priority), fires no event and
  returns true.
\<close>

theorem update_stale_ignored:
  assumes "find_clock clockTag (m_clocks h) = Some it"
    and "timeStamp \<noteq> invalidTime"
    and "lastUpdate (snd it) \<noteq> invalidTime"
    and "word_sle timeStamp (lastUpdate (snd it))"
  shows "update now off clockTag timeStamp h = (True, [], h)"
  using assms by (simp add: update_def)

theorem update_stale_ignored_witness:
  "find_clock manual [(manual, \<lparr>priority = 0, systemOffset = 5, lastUpdate = 2000\<rparr>)] =
     Some (manual, \<lparr>priority = 0, systemOffset = 5, lastUpdate = 2000\<rparr>)
   \<and> (2000 :: time_t) \<noteq> invalidTime
   \<and> word_sle (2000 :: time_t) 2000
   \<and> update 3000 7 manual 2000
       \<lparr>m_clocks = [(manual, \<lparr>priority = 0, systemOffset = 5, lastUpdate = 2000\<rparr>)],
        m_manualOverride = False\<rparr> =
     (True, [],
       \<lparr>m_clocks = [(manual, \<lparr>priority = 0, systemOffset = 5, lastUpdate = 2000\<rparr>)],
        m_manualOverride = False\<rparr>)"
  using
    update_stale_ignored [where h = "\<lparr>m_clocks = [(manual, \<lparr>priority = 0,
         systemOffset = 5, lastUpdate = 2000\<rparr>)], m_manualOverride = False\<rparr>"
       and clockTag = manual
       and it = "(manual, \<lparr>priority = 0, systemOffset = 5, lastUpdate = 2000\<rparr>)"
       and timeStamp = 2000 and now = 3000 and off = 7]
  by (simp add: invalidTime_def)

text \<open>
  C2, as the code has it. The staleness test is made only for an explicit time stamp:
  an \<^verbatim>\<open>update\<close> of a registered source with the sentinel time stamp takes the
  current time, stores it with the offset and fires the event without any test, and an
  \<^verbatim>\<open>update\<close> with an explicit time stamp not greater than a valid \<^verbatim>\<open>lastUpdate\<close>
  changes nothing, fires nothing and returns true.
\<close>

theorem update_staleness_explicit_only:
  "(find_clock clockTag (m_clocks h) = Some it \<longrightarrow>
      update now off clockTag invalidTime h =
        (True, [(clockTag, priority (snd it), off, now)],
         h\<lparr>m_clocks := modify_clock clockTag
              (\<lambda>c. c\<lparr>lastUpdate := now, systemOffset := off\<rparr>) (m_clocks h)\<rparr>))
   \<and> (find_clock clockTag (m_clocks h) = Some it \<and> timeStamp \<noteq> invalidTime
        \<and> lastUpdate (snd it) \<noteq> invalidTime
        \<and> word_sle timeStamp (lastUpdate (snd it)) \<longrightarrow>
      update now off clockTag timeStamp h = (True, [], h))"
proof (intro conjI impI)
  assume a: "find_clock clockTag (m_clocks h) = Some it"
  then have "fst it = clockTag"
    by (rule find_clock_key)
  with a show "update now off clockTag invalidTime h =
        (True, [(clockTag, priority (snd it), off, now)],
         h\<lparr>m_clocks := modify_clock clockTag
              (\<lambda>c. c\<lparr>lastUpdate := now, systemOffset := off\<rparr>) (m_clocks h)\<rparr>)"
    by (simp add: update_def store_update_def)
next
  assume "find_clock clockTag (m_clocks h) = Some it \<and> timeStamp \<noteq> invalidTime
        \<and> lastUpdate (snd it) \<noteq> invalidTime
        \<and> word_sle timeStamp (lastUpdate (snd it))"
  then show "update now off clockTag timeStamp h = (True, [], h)"
    by (simp add: update_def)
qed

theorem update_staleness_explicit_only_witness:
  "update 1000 7 manual invalidTime
     \<lparr>m_clocks = [(manual, \<lparr>priority = 0, systemOffset = 5, lastUpdate = 2000\<rparr>)],
      m_manualOverride = False\<rparr> =
     (True, [(manual, 0, 7, 1000)],
      \<lparr>m_clocks = [(manual, \<lparr>priority = 0, systemOffset = 7, lastUpdate = 1000\<rparr>)],
       m_manualOverride = False\<rparr>)
   \<and> update 1000 7 manual 1500
       \<lparr>m_clocks = [(manual, \<lparr>priority = 0, systemOffset = 5, lastUpdate = 2000\<rparr>)],
        m_manualOverride = False\<rparr> =
     (True, [],
      \<lparr>m_clocks = [(manual, \<lparr>priority = 0, systemOffset = 5, lastUpdate = 2000\<rparr>)],
       m_manualOverride = False\<rparr>)"
  using
    update_staleness_explicit_only [where h = "\<lparr>m_clocks = [(manual, \<lparr>priority = 0,
         systemOffset = 5, lastUpdate = 2000\<rparr>)], m_manualOverride = False\<rparr>"
       and clockTag = manual
       and it = "(manual, \<lparr>priority = 0, systemOffset = 5, lastUpdate = 2000\<rparr>)"
       and timeStamp = 1500 and now = 1000 and off = 7]
  by (simp add: invalidTime_def)

text \<open>
  The claim C2 as the specification states it fails: \<^verbatim>\<open>manual\<close> was updated with the
  time stamp 2000; at process time 1000 an \<^verbatim>\<open>update\<close> with the sentinel time stamp is
  applied, although the stored \<^verbatim>\<open>lastUpdate\<close> is not less than the current time.
\<close>

theorem update_sentinel_skips_staleness_check:
  "update 1000 5 manual 2000 (ClockHandler_ctor 0) =
     (True, [(manual, 0, 5, 2000)],
      \<lparr>m_clocks = [(manual, \<lparr>priority = 0, systemOffset = 5, lastUpdate = 2000\<rparr>)],
       m_manualOverride = False\<rparr>)
   \<and> (2000 :: time_t) \<noteq> invalidTime
   \<and> word_sle (1000 :: time_t) 2000
   \<and> update 1000 7 manual invalidTime
       \<lparr>m_clocks = [(manual, \<lparr>priority = 0, systemOffset = 5, lastUpdate = 2000\<rparr>)],
        m_manualOverride = False\<rparr> =
     (True, [(manual, 0, 7, 1000)],
      \<lparr>m_clocks = [(manual, \<lparr>priority = 0, systemOffset = 7, lastUpdate = 1000\<rparr>)],
       m_manualOverride = False\<rparr>)
   \<and> update 1000 7 manual invalidTime
       \<lparr>m_clocks = [(manual, \<lparr>priority = 0, systemOffset = 5, lastUpdate = 2000\<rparr>)],
        m_manualOverride = False\<rparr> \<noteq>
     (True, [],
      \<lparr>m_clocks = [(manual, \<lparr>priority = 0, systemOffset = 5, lastUpdate = 2000\<rparr>)],
       m_manualOverride = False\<rparr>)"
  by (simp add: ctor_eq update_def store_update_def invalidTime_def)

section \<open>No data and has data\<close>

lemma adjust_clock_no_data:
  "lastUpdate c = invalidTime \<Longrightarrow> lastUpdate (adjust_clock d c) = invalidTime"
  by (simp add: adjust_clock_def)

lemma adjust_no_data: "\<not> has_data t h \<Longrightarrow> \<not> has_data t (adjust d h)"
  by (auto simp add: has_data_def adjust_def find_map adjust_clock_no_data
      split: option.splits)

lemma setup_no_data:
  "\<not> has_data t h \<Longrightarrow> find_clock tag (m_clocks h) = None \<or> off = invalidOffset \<Longrightarrow>
   \<not> has_data t (setup_clock now tag prio off h)"
  by (auto simp add: has_data_def setup_clock_def find_modify find_insert
      split: option.splits if_splits)

lemma manualOverride_m_clocks:
  "manualOverride enabled h = Inr r \<Longrightarrow> m_clocks (snd r) = m_clocks h"
  by (auto simp add: manualOverride_def split: if_splits sum.splits)

text \<open>
  C5, as the code has it. A call other than \<^verbatim>\<open>update\<close> that is not a \<^verbatim>\<open>setup\<close> of an
  already registered tag with an offset (so: \<^verbatim>\<open>setup\<close> of a new tag, \<^verbatim>\<open>setup\<close> without
  an offset, \<^verbatim>\<open>adjust\<close>, \<^verbatim>\<open>manualOverride\<close>, \<^verbatim>\<open>getTime\<close>) gives no source data that
  had none. A \<^verbatim>\<open>setup\<close> of a registered tag with an offset stores the priority and the
  offset and sets \<^verbatim>\<open>lastUpdate\<close> to the current time.
\<close>

theorem no_data_gained_without_update:
  "(step now c h = Some h' \<and> \<not> has_data t h
      \<and> (case c of
            Update off clockTag timeStamp \<Rightarrow> False
          | Setup clockTag prio off \<Rightarrow>
              find_clock clockTag (m_clocks h) = None \<or> off = invalidOffset
          | _ \<Rightarrow> True) \<longrightarrow>
    \<not> has_data t h')
   \<and> (find_clock tag (m_clocks h) = Some it \<and> off' \<noteq> invalidOffset \<longrightarrow>
      find_clock tag (m_clocks (setup_clock now tag prio' off' h)) =
        Some (tag, \<lparr>priority = prio', systemOffset = off', lastUpdate = now\<rparr>))"
proof (intro conjI impI)
  assume a: "step now c h = Some h' \<and> \<not> has_data t h
      \<and> (case c of
            Update off clockTag timeStamp \<Rightarrow> False
          | Setup clockTag prio off \<Rightarrow>
              find_clock clockTag (m_clocks h) = None \<or> off = invalidOffset
          | _ \<Rightarrow> True)"
  show "\<not> has_data t h'"
  proof (cases c)
    case (Setup clockTag prio off)
    with a show ?thesis
      using setup_no_data [of t h clockTag off now prio] by auto
  next
    case (Update off clockTag timeStamp)
    with a show ?thesis by simp
  next
    case (Adjust d)
    with a show ?thesis
      using adjust_no_data [of t h d] by auto
  next
    case (ManualOverride enabled)
    with a obtain r where "manualOverride enabled h = Inr r" and "h' = snd r"
      by (auto split: sum.splits)
    then have "m_clocks h' = m_clocks h"
      by (simp add: manualOverride_m_clocks)
    with a show ?thesis
      by (simp add: has_data_def)
  next
    case (GetTime sysTimeSource src wantManualOverride fallback)
    with a show ?thesis by auto
  qed
next
  assume a: "find_clock tag (m_clocks h) = Some it \<and> off' \<noteq> invalidOffset"
  then have "fst it = tag"
    using find_clock_key by blast
  with a show "find_clock tag (m_clocks (setup_clock now tag prio' off' h)) =
        Some (tag, \<lparr>priority = prio', systemOffset = off', lastUpdate = now\<rparr>)"
    by (simp add: setup_clock_def find_modify)
qed

theorem no_data_gained_without_update_witness:
  "step 1000 (Setup manual 3 invalidOffset) (ClockHandler_ctor 0) =
     Some \<lparr>m_clocks = [(manual, \<lparr>priority = 3, systemOffset = invalidOffset,
                                  lastUpdate = invalidTime\<rparr>)],
           m_manualOverride = False\<rparr>
   \<and> \<not> has_data manual (ClockHandler_ctor 0)
   \<and> \<not> has_data manual
         \<lparr>m_clocks = [(manual, \<lparr>priority = 3, systemOffset = invalidOffset,
                                lastUpdate = invalidTime\<rparr>)],
          m_manualOverride = False\<rparr>
   \<and> find_clock manual (m_clocks (setup_clock 1000 manual 3 5 (ClockHandler_ctor 0))) =
       Some (manual, \<lparr>priority = 3, systemOffset = 5, lastUpdate = 1000\<rparr>)"
proof -
  have s: "step 1000 (Setup manual 3 invalidOffset) (ClockHandler_ctor 0) =
     Some \<lparr>m_clocks = [(manual, \<lparr>priority = 3, systemOffset = invalidOffset,
                                  lastUpdate = invalidTime\<rparr>)],
           m_manualOverride = False\<rparr>"
    by (simp add: ctor_eq setup_clock_def)
  have n: "\<not> has_data manual (ClockHandler_ctor 0)"
    by (simp add: ctor_eq has_data_def)
  have f: "find_clock manual (m_clocks (ClockHandler_ctor 0)) =
      Some (manual, \<lparr>priority = 0, systemOffset = invalidOffset, lastUpdate = invalidTime\<rparr>)"
    by (simp add: ctor_eq)
  have o: "(5 :: time_t) \<noteq> invalidOffset"
    by (simp add: invalidOffset_def)
  show ?thesis
    using s n f o
      no_data_gained_without_update [where now = 1000 and c = "Setup manual 3 invalidOffset"
         and h = "ClockHandler_ctor 0" and t = manual and tag = manual
         and h' = "\<lparr>m_clocks = [(manual, \<lparr>priority = 3, systemOffset = invalidOffset,
              lastUpdate = invalidTime\<rparr>)], m_manualOverride = False\<rparr>"
         and it = "(manual, \<lparr>priority = 0, systemOffset = invalidOffset,
              lastUpdate = invalidTime\<rparr>)"
         and off' = 5 and prio' = 3]
    by simp
qed

text \<open>
  The claim C5 as the specification states it fails: after the constructor \<^verbatim>\<open>manual\<close>
  has no data, and \<^verbatim>\<open>setup(manual, 0, 5)\<close> at process time 1000 gives it a
  \<^verbatim>\<open>lastUpdate\<close> without any call of \<^verbatim>\<open>update\<close>.
\<close>

theorem setup_existing_gives_data:
  "\<not> has_data manual (ClockHandler_ctor 0)
   \<and> step 1000 (Setup manual 0 5) (ClockHandler_ctor 0) =
       Some \<lparr>m_clocks = [(manual, \<lparr>priority = 0, systemOffset = 5, lastUpdate = 1000\<rparr>)],
             m_manualOverride = False\<rparr>
   \<and> has_data manual
       \<lparr>m_clocks = [(manual, \<lparr>priority = 0, systemOffset = 5, lastUpdate = 1000\<rparr>)],
        m_manualOverride = False\<rparr>"
  by (simp add: ctor_eq has_data_def setup_clock_def invalidTime_def invalidOffset_def)

section \<open>Stepping the time base\<close>






section \<open>The override flag\<close>

lemma resend_events:
  "list_all (\<lambda>it. lastUpdate (snd it) = invalidTime \<or> systemOffset (snd it) \<noteq> invalidOffset) m
   \<Longrightarrow> resend m fired = Inr (fired @ resent_events m)"
  by (induction m arbitrary: fired) (auto simp add: resent_events_def)

text \<open>
  \<^verbatim>\<open>manualOverride(enabled)\<close> changes nothing and fires nothing
  when the flag already has that value; switching it on fires nothing; switching it off
  in a handler whose clocks satisfy the asserted invariant fires, in map order, one
  event for each entry with a valid \<^verbatim>\<open>lastUpdate\<close>, carrying the entry's tag,
  priority, offset and \<^verbatim>\<open>lastUpdate\<close> as stored, and none for an entry whose
  \<^verbatim>\<open>lastUpdate\<close> is unset, whatever its offset; the clocks are left as they were.
\<close>

lemma manualOverride_events:
  "(m_manualOverride h = enabled \<longrightarrow> manualOverride enabled h = Inr ([], h))
   \<and> (\<not> m_manualOverride h \<longrightarrow>
        manualOverride True h = Inr ([], h\<lparr>m_manualOverride := True\<rparr>))
   \<and> (m_manualOverride h \<and> clock_invariant h \<longrightarrow>
        manualOverride False h =
          Inr (resent_events (m_clocks h), h\<lparr>m_manualOverride := False\<rparr>))"
  by (simp add: manualOverride_def clock_invariant_def resend_events)

lemma manualOverride_events_example:
  "manualOverride True (ClockHandler_ctor 0) =
     Inr ([], \<lparr>m_clocks = [(manual, \<lparr>priority = 0, systemOffset = invalidOffset,
                                    lastUpdate = invalidTime\<rparr>)],
              m_manualOverride = True\<rparr>)
   \<and> manualOverride True
       \<lparr>m_clocks = [(manual, \<lparr>priority = 0, systemOffset = 5, lastUpdate = 2000\<rparr>),
                    (micom, \<lparr>priority = 1, systemOffset = 7, lastUpdate = invalidTime\<rparr>)],
        m_manualOverride = True\<rparr> =
     Inr ([],
       \<lparr>m_clocks = [(manual, \<lparr>priority = 0, systemOffset = 5, lastUpdate = 2000\<rparr>),
                    (micom, \<lparr>priority = 1, systemOffset = 7, lastUpdate = invalidTime\<rparr>)],
        m_manualOverride = True\<rparr>)
   \<and> manualOverride False
       \<lparr>m_clocks = [(manual, \<lparr>priority = 0, systemOffset = 5, lastUpdate = 2000\<rparr>),
                    (micom, \<lparr>priority = 1, systemOffset = 7, lastUpdate = invalidTime\<rparr>)],
        m_manualOverride = True\<rparr> =
     Inr ([(manual, 0, 5, 2000)],
       \<lparr>m_clocks = [(manual, \<lparr>priority = 0, systemOffset = 5, lastUpdate = 2000\<rparr>),
                    (micom, \<lparr>priority = 1, systemOffset = 7, lastUpdate = invalidTime\<rparr>)],
        m_manualOverride = False\<rparr>)"
  using
    manualOverride_events [where h = "ClockHandler_ctor 0" and enabled = False]
    manualOverride_events [where enabled = True
       and h = "\<lparr>m_clocks = [(manual, \<lparr>priority = 0, systemOffset = 5, lastUpdate = 2000\<rparr>),
                    (micom, \<lparr>priority = 1, systemOffset = 7, lastUpdate = invalidTime\<rparr>)],
                 m_manualOverride = True\<rparr>"]
  by (simp add: ctor_eq clock_invariant_def resent_events_def invalidOffset_def
      invalidTime_def)

text \<open>
  Where the first entry that breaks the asserted invariant follows entries that keep
  it, the loop fires the events of those entries and then ends at the assertion.
\<close>

lemma resend_stops_at_assertion:
  "list_all (\<lambda>it. lastUpdate (snd it) = invalidTime \<or> systemOffset (snd it) \<noteq> invalidOffset) pre
   \<Longrightarrow> lastUpdate c \<noteq> invalidTime \<Longrightarrow> systemOffset c = invalidOffset
   \<Longrightarrow> resend (pre @ (tag, c) # rest) fired =
         Inl (AssertionFailed (fired @ resent_events pre))"
  by (induction pre arbitrary: fired) (auto simp add: resent_events_def)

text \<open>
  C7. On a true to false transition every registered source with a valid
  \<^verbatim>\<open>lastUpdate\<close> is to get one change event with its stored data. The code does not
  do so in the handler reached by the constructor, \<^verbatim>\<open>manualOverride(true)\<close> and an
  \<^verbatim>\<open>update\<close> of \<^verbatim>\<open>manual\<close> whose offset is the value \<^verbatim>\<open>invalidOffset\<close>: there
  \<^verbatim>\<open>manual\<close> has a valid \<^verbatim>\<open>lastUpdate\<close>, the event it is to get is
  \<^verbatim>\<open>(manual, 0, invalidOffset, 1000)\<close>, and switching the flag off ends at the assertion
  with no event fired.
\<close>

theorem manualOverride_assertion_fails:
  "run [(0, ManualOverride True), (1000, Update invalidOffset manual invalidTime)]
     (ClockHandler_ctor 0) =
     Some \<lparr>m_clocks = [(manual, \<lparr>priority = 0, systemOffset = invalidOffset,
                                  lastUpdate = 1000\<rparr>)],
           m_manualOverride = True\<rparr>
   \<and> (1000 :: time_t) \<noteq> invalidTime
   \<and> resent_events
       [(manual, \<lparr>priority = 0, systemOffset = invalidOffset, lastUpdate = 1000\<rparr>)] =
     [(manual, 0, invalidOffset, 1000)]
   \<and> manualOverride False
       \<lparr>m_clocks = [(manual, \<lparr>priority = 0, systemOffset = invalidOffset,
                              lastUpdate = 1000\<rparr>)],
        m_manualOverride = True\<rparr> =
     Inl (AssertionFailed [])"
  by (simp add: ctor_eq manualOverride_def update_def store_update_def resent_events_def
      invalidTime_def)

section \<open>The invariant of Clock\<close>

lemma list_all_modify:
  "list_all P m \<Longrightarrow> (\<And>k c. P (k, c) \<Longrightarrow> P (k, f c)) \<Longrightarrow> list_all P (modify_clock tag f m)"
  by (induction m) auto

lemma list_all_insert:
  "list_all P m \<Longrightarrow> P (tag, c) \<Longrightarrow> list_all P (insert_clock tag c m)"
  by (induction m) auto

lemma setup_keeps_invariant:
  "clock_invariant h \<Longrightarrow> clock_invariant (setup_clock now tag prio off h)"
  by (auto simp add: clock_invariant_def setup_clock_def
      intro!: list_all_modify list_all_insert split: option.splits if_splits)

lemma manualOverride_keeps_invariant:
  "clock_invariant h \<Longrightarrow> manualOverride enabled h = Inr r \<Longrightarrow> clock_invariant (snd r)"
  by (simp add: clock_invariant_def manualOverride_m_clocks)

lemma update_keeps_invariant:
  "clock_invariant h \<Longrightarrow> off \<noteq> invalidOffset \<Longrightarrow>
   clock_invariant (snd (snd (update now off tag timeStamp h)))"
  by (auto simp add: clock_invariant_def update_def store_update_def Let_def
      intro!: list_all_modify split: option.splits)

text \<open>
  C8. The invariant "\<^verbatim>\<open>lastUpdate\<close> valid implies \<^verbatim>\<open>systemOffset\<close> valid" holds after
  the constructor and is lost by \<^verbatim>\<open>update\<close> when the offset passed is the value
  \<^verbatim>\<open>invalidOffset\<close>; \<^verbatim>\<open>setTime\<close> passes that offset when \<^verbatim>\<open>utc - time(0)\<close> is
  \<^verbatim>\<open>LONG_MIN\<close>. It is also lost by \<^verbatim>\<open>adjust\<close> when the new offset is that value.
\<close>

theorem update_sentinel_offset_breaks_invariant:
  "clock_invariant (ClockHandler_ctor 0)
   \<and> update 1000 invalidOffset manual invalidTime (ClockHandler_ctor 0) =
       (True, [(manual, 0, invalidOffset, 1000)],
        \<lparr>m_clocks = [(manual, \<lparr>priority = 0, systemOffset = invalidOffset,
                               lastUpdate = 1000\<rparr>)],
         m_manualOverride = False\<rparr>)
   \<and> cbSetTime 1000 manual (invalidOffset + 1000) (ClockHandler_ctor 0) =
       update 1000 invalidOffset manual invalidTime (ClockHandler_ctor 0)
   \<and> \<not> clock_invariant
         \<lparr>m_clocks = [(manual, \<lparr>priority = 0, systemOffset = invalidOffset,
                                lastUpdate = 1000\<rparr>)],
          m_manualOverride = False\<rparr>
   \<and> clock_invariant
       \<lparr>m_clocks = [(manual, \<lparr>priority = 0, systemOffset = invalidOffset + 1,
                              lastUpdate = 1000\<rparr>)],
        m_manualOverride = False\<rparr>
   \<and> \<not> clock_invariant (adjust 1
         \<lparr>m_clocks = [(manual, \<lparr>priority = 0, systemOffset = invalidOffset + 1,
                                lastUpdate = 1000\<rparr>)],
          m_manualOverride = False\<rparr>)"
  by (simp add: ctor_eq clock_invariant_def update_def store_update_def cbSetTime_def
      adjust_def adjust_clock_def invalidTime_def invalidOffset_def)

section \<open>Which tags are registered\<close>

lemma update_m_clocks_find:
  "find_clock t (m_clocks (snd (snd (update now off tag timeStamp h)))) = None \<longleftrightarrow>
   find_clock t (m_clocks h) = None"
  by (auto simp add: update_def store_update_def Let_def find_modify
      split: option.splits dest: find_clock_key)

lemma setup_m_clocks_find:
  "find_clock t (m_clocks (setup_clock now tag prio off h)) = None \<longleftrightarrow>
   find_clock t (m_clocks h) = None \<and> t \<noteq> tag"
  by (auto simp add: setup_clock_def find_modify find_insert split: option.splits)

lemma adjust_m_clocks_find:
  "find_clock t (m_clocks (adjust d h)) = None \<longleftrightarrow> find_clock t (m_clocks h) = None"
  by (simp add: adjust_def find_map)

lemma step_keeps_registered:
  assumes "step now c h = Some h'" and "find_clock t (m_clocks h) \<noteq> None"
  shows "find_clock t (m_clocks h') \<noteq> None"
proof (cases c)
  case (Setup clockTag prio off)
  with assms(1) have "h' = setup_clock now clockTag prio off h"
    by simp
  with assms(2) show ?thesis
    by (simp only: setup_m_clocks_find) simp
next
  case (Update off clockTag timeStamp)
  with assms(1) have "h' = snd (snd (update now off clockTag timeStamp h))"
    by simp
  with assms(2) show ?thesis
    by (simp only: update_m_clocks_find) simp
next
  case (Adjust d)
  with assms(1) have "h' = adjust d h"
    by simp
  with assms(2) show ?thesis
    by (simp only: adjust_m_clocks_find) simp
next
  case (ManualOverride enabled)
  with assms(1) obtain r where "manualOverride enabled h = Inr r" and "h' = snd r"
    by (auto split: sum.splits)
  then have "m_clocks h' = m_clocks h"
    by (simp add: manualOverride_m_clocks)
  with assms(2) show ?thesis
    by simp
next
  case (GetTime sysTimeSource src wantManualOverride fallback)
  with assms show ?thesis by auto
qed

lemma step_keeps_unregistered:
  assumes "step now c h = Some h'" and "find_clock t (m_clocks h) = None"
    and "\<not> is_setup_of t c"
  shows "find_clock t (m_clocks h') = None"
proof (cases c)
  case (Setup clockTag prio off)
  with assms(1) have "h' = setup_clock now clockTag prio off h"
    by simp
  moreover from Setup assms(3) have "t \<noteq> clockTag"
    by auto
  ultimately show ?thesis
    using assms(2) by (simp add: setup_m_clocks_find)
next
  case (Update off clockTag timeStamp)
  with assms(1) have "h' = snd (snd (update now off clockTag timeStamp h))"
    by simp
  with assms(2) show ?thesis
    by (simp add: update_m_clocks_find)
next
  case (Adjust d)
  with assms(1) have "h' = adjust d h"
    by simp
  with assms(2) show ?thesis
    by (simp add: adjust_m_clocks_find)
next
  case (ManualOverride enabled)
  with assms(1) obtain r where "manualOverride enabled h = Inr r" and "h' = snd r"
    by (auto split: sum.splits)
  then have "m_clocks h' = m_clocks h"
    by (simp add: manualOverride_m_clocks)
  with assms(2) show ?thesis
    by simp
next
  case (GetTime sysTimeSource src wantManualOverride fallback)
  with assms show ?thesis by auto
qed

lemma run_keeps_registered:
  "run calls h = Some h' \<Longrightarrow> find_clock t (m_clocks h) \<noteq> None \<Longrightarrow>
   find_clock t (m_clocks h') \<noteq> None"
proof (induction calls arbitrary: h)
  case Nil
  then show ?case by simp
next
  case (Cons a calls)
  obtain now c where a: "a = (now, c)"
    by (cases a)
  with Cons.prems obtain h1 where s: "step now c h = Some h1" and r: "run calls h1 = Some h'"
    by (auto split: option.splits)
  from s Cons.prems(2) have "find_clock t (m_clocks h1) \<noteq> None"
    by (rule step_keeps_registered)
  with r show ?case
    by (rule Cons.IH)
qed

lemma run_keeps_unregistered:
  "run calls h = Some h' \<Longrightarrow> find_clock t (m_clocks h) = None \<Longrightarrow>
   \<forall>tc \<in> set calls. \<not> is_setup_of t (snd tc) \<Longrightarrow>
   find_clock t (m_clocks h') = None"
proof (induction calls arbitrary: h)
  case Nil
  then show ?case by simp
next
  case (Cons a calls)
  obtain now c where a: "a = (now, c)"
    by (cases a)
  with Cons.prems obtain h1 where s: "step now c h = Some h1" and r: "run calls h1 = Some h'"
    by (auto split: option.splits)
  from a Cons.prems(3) have n: "\<not> is_setup_of t c"
    by simp
  from s Cons.prems(2) n have "find_clock t (m_clocks h1) = None"
    by (rule step_keeps_unregistered)
  with r Cons.prems(3) show ?case
    by (intro Cons.IH) auto
qed

text \<open>
  C9, as the code has it. In every handler reached from the constructor by calls among
  which there is no \<^verbatim>\<open>setup\<close> of the tag \<^verbatim>\<open>system\<close>, no entry of the map has the key
  \<^verbatim>\<open>system\<close>. A request for the source \<^verbatim>\<open>system\<close> in which the manual clock
  is not forced (no override requested, or the flag not set, or \<^verbatim>\<open>manual\<close> missing or
  without an offset) is answered from the process clock with offset 0, whatever the
  map holds and whatever the fallback is.
\<close>

theorem system_not_stored_without_setup:
  "(run calls (ClockHandler_ctor t0) = Some h
      \<and> (\<forall>tc \<in> set calls. \<not> is_setup_of system (snd tc)) \<longrightarrow>
    find_clock system (m_clocks h) = None)
   \<and> (\<not> manual_forced wantManualOverride h' \<longrightarrow>
      cbGetTime now sts system wantManualOverride fallback h' =
        \<lparr>returnValue = True, errorText = None, source = system, offsetValue = Some 0,
         utc = Some now, replyPriority = None, systemTimeSource = Some sts\<rparr>)
   \<and> cbGetTime now sts system False fallback h' =
       \<lparr>returnValue = True, errorText = None, source = system, offsetValue = Some 0,
        utc = Some now, replyPriority = None, systemTimeSource = Some sts\<rparr>"
proof (intro conjI impI)
  assume a: "run calls (ClockHandler_ctor t0) = Some h
      \<and> (\<forall>tc \<in> set calls. \<not> is_setup_of system (snd tc))"
  have "find_clock system (m_clocks (ClockHandler_ctor t0)) = None"
    by (simp add: ctor_eq manual_def system_def)
  with a show "find_clock system (m_clocks h) = None"
    using run_keeps_unregistered [of calls "ClockHandler_ctor t0" h system] by blast
next
  assume "\<not> manual_forced wantManualOverride h'"
  then show "cbGetTime now sts system wantManualOverride fallback h' =
       \<lparr>returnValue = True, errorText = None, source = system, offsetValue = Some 0,
        utc = Some now, replyPriority = None, systemTimeSource = Some sts\<rparr>"
    by (simp add: cbGetTime_def make_reply_def Let_def split: option.splits)
next
  show "cbGetTime now sts system False fallback h' =
       \<lparr>returnValue = True, errorText = None, source = system, offsetValue = Some 0,
        utc = Some now, replyPriority = None, systemTimeSource = Some sts\<rparr>"
    by (simp add: cbGetTime_def manual_forced_def make_reply_def Let_def
        split: option.splits)
qed

theorem system_not_stored_without_setup_witness:
  "run [(10, Setup micom 1 7), (20, Update 5 system invalidTime), (30, Adjust 60),
        (40, ManualOverride True)] (ClockHandler_ctor 0) =
     Some \<lparr>m_clocks = [(manual, \<lparr>priority = 0, systemOffset = invalidOffset,
                                  lastUpdate = invalidTime\<rparr>),
                        (micom, \<lparr>priority = 1, systemOffset = - 53,
                                 lastUpdate = invalidTime\<rparr>)],
           m_manualOverride = True\<rparr>
   \<and> find_clock system
       (m_clocks \<lparr>m_clocks = [(manual, \<lparr>priority = 0, systemOffset = invalidOffset,
                                        lastUpdate = invalidTime\<rparr>),
                              (micom, \<lparr>priority = 1, systemOffset = - 53,
                                       lastUpdate = invalidTime\<rparr>)],
                 m_manualOverride = True\<rparr>) = None
   \<and> \<not> manual_forced True
         \<lparr>m_clocks = [(manual, \<lparr>priority = 0, systemOffset = 5, lastUpdate = 20\<rparr>),
                      (system, \<lparr>priority = 1, systemOffset = 9, lastUpdate = 30\<rparr>)],
          m_manualOverride = False\<rparr>
   \<and> cbGetTime 1000 ''ntp'' system True (Some manual)
       \<lparr>m_clocks = [(manual, \<lparr>priority = 0, systemOffset = 5, lastUpdate = 20\<rparr>),
                    (system, \<lparr>priority = 1, systemOffset = 9, lastUpdate = 30\<rparr>)],
        m_manualOverride = False\<rparr> =
       \<lparr>returnValue = True, errorText = None, source = system, offsetValue = Some 0,
        utc = Some 1000, replyPriority = None, systemTimeSource = Some ''ntp''\<rparr>"
proof -
  have r: "run [(10, Setup micom 1 7), (20, Update 5 system invalidTime), (30, Adjust 60),
        (40, ManualOverride True)] (ClockHandler_ctor 0) =
     Some \<lparr>m_clocks = [(manual, \<lparr>priority = 0, systemOffset = invalidOffset,
                                  lastUpdate = invalidTime\<rparr>),
                        (micom, \<lparr>priority = 1, systemOffset = - 53,
                                 lastUpdate = invalidTime\<rparr>)],
           m_manualOverride = True\<rparr>"
    by (simp add: ctor_eq setup_clock_def update_def adjust_def adjust_clock_def
        manualOverride_def manual_def micom_def system_def invalidOffset_def)
  have n: "\<forall>tc \<in> set [(10 :: time_t, Setup micom 1 7), (20, Update 5 system invalidTime),
        (30, Adjust 60), (40, ManualOverride True)]. \<not> is_setup_of system (snd tc)"
    by (simp add: micom_def system_def)
  have f: "\<not> manual_forced True
         \<lparr>m_clocks = [(manual, \<lparr>priority = 0, systemOffset = 5, lastUpdate = 20\<rparr>),
                      (system, \<lparr>priority = 1, systemOffset = 9, lastUpdate = 30\<rparr>)],
          m_manualOverride = False\<rparr>"
    by (simp add: manual_forced_def)
  show ?thesis
    using r n f
      system_not_stored_without_setup [where ?t0.0 = 0
         and calls = "[(10, Setup micom 1 7), (20, Update 5 system invalidTime),
            (30, Adjust 60), (40, ManualOverride True)]"
         and h = "\<lparr>m_clocks = [(manual, \<lparr>priority = 0, systemOffset = invalidOffset,
                                  lastUpdate = invalidTime\<rparr>),
                        (micom, \<lparr>priority = 1, systemOffset = - 53,
                                 lastUpdate = invalidTime\<rparr>)],
                   m_manualOverride = True\<rparr>"
         and h' = "\<lparr>m_clocks = [(manual, \<lparr>priority = 0, systemOffset = 5,
                                  lastUpdate = 20\<rparr>),
                        (system, \<lparr>priority = 1, systemOffset = 9, lastUpdate = 30\<rparr>)],
                   m_manualOverride = False\<rparr>"
         and wantManualOverride = True and now = 1000 and sts = "''ntp''"
         and fallback = "Some manual"]
    by blast
qed

text \<open>
  The claim C9 as the specification states it fails: \<^verbatim>\<open>setup\<close> takes any tag, and
  \<^verbatim>\<open>setup(system, 1)\<close> after the constructor stores an entry with the key \<^verbatim>\<open>system\<close>.
\<close>

theorem setup_stores_system:
  "run [(10, Setup system 1 invalidOffset)] (ClockHandler_ctor 0) =
     Some \<lparr>m_clocks = [(manual, \<lparr>priority = 0, systemOffset = invalidOffset,
                                  lastUpdate = invalidTime\<rparr>),
                        (system, \<lparr>priority = 1, systemOffset = invalidOffset,
                                  lastUpdate = invalidTime\<rparr>)],
           m_manualOverride = False\<rparr>
   \<and> find_clock system
       (m_clocks \<lparr>m_clocks = [(manual, \<lparr>priority = 0, systemOffset = invalidOffset,
                                        lastUpdate = invalidTime\<rparr>),
                              (system, \<lparr>priority = 1, systemOffset = invalidOffset,
                                        lastUpdate = invalidTime\<rparr>)],
                 m_manualOverride = False\<rparr>) =
     Some (system, \<lparr>priority = 1, systemOffset = invalidOffset, lastUpdate = invalidTime\<rparr>)"
  by (simp add: ctor_eq setup_clock_def manual_def system_def)

text \<open>
  C10. The constructor leaves one entry, \<^verbatim>\<open>manual\<close> with priority 0 and neither offset
  nor \<^verbatim>\<open>lastUpdate\<close>; no call removes a registered tag; so in every handler reached
  from the constructor \<^verbatim>\<open>manual\<close> is registered and \<^verbatim>\<open>update\<close> of \<^verbatim>\<open>manual\<close> returns
  true.
\<close>

theorem manual_always_registered:
  "ClockHandler_ctor t0 =
     \<lparr>m_clocks = [(manual, \<lparr>priority = 0, systemOffset = invalidOffset,
                            lastUpdate = invalidTime\<rparr>)],
      m_manualOverride = False\<rparr>
   \<and> (step now c h = Some h' \<and> find_clock t (m_clocks h) \<noteq> None \<longrightarrow>
        find_clock t (m_clocks h') \<noteq> None)
   \<and> (run calls (ClockHandler_ctor t0) = Some hr \<longrightarrow>
        find_clock manual (m_clocks hr) \<noteq> None
        \<and> fst (update now' off manual timeStamp hr))"
proof (intro conjI impI)
  show "ClockHandler_ctor t0 =
     \<lparr>m_clocks = [(manual, \<lparr>priority = 0, systemOffset = invalidOffset,
                            lastUpdate = invalidTime\<rparr>)],
      m_manualOverride = False\<rparr>"
    by (rule ctor_eq)
next
  assume "step now c h = Some h' \<and> find_clock t (m_clocks h) \<noteq> None"
  then show "find_clock t (m_clocks h') \<noteq> None"
    using step_keeps_registered by blast
next
  assume r: "run calls (ClockHandler_ctor t0) = Some hr"
  have "find_clock manual (m_clocks (ClockHandler_ctor t0)) \<noteq> None"
    by (simp add: ctor_eq)
  with r show m: "find_clock manual (m_clocks hr) \<noteq> None"
    by (rule run_keeps_registered)
  then show "fst (update now' off manual timeStamp hr)"
    by (auto simp add: update_def store_update_def Let_def split: option.splits)
qed

theorem manual_always_registered_witness:
  "step 30 (Adjust 60)
     \<lparr>m_clocks = [(manual, \<lparr>priority = 0, systemOffset = 5, lastUpdate = 20\<rparr>)],
      m_manualOverride = False\<rparr> =
     Some \<lparr>m_clocks = [(manual, \<lparr>priority = 0, systemOffset = - 55, lastUpdate = 80\<rparr>)],
           m_manualOverride = False\<rparr>
   \<and> find_clock manual
       (m_clocks \<lparr>m_clocks = [(manual, \<lparr>priority = 0, systemOffset = - 55,
                                        lastUpdate = 80\<rparr>)],
                 m_manualOverride = False\<rparr>) \<noteq> None
   \<and> run [(10, Setup micom 1 7), (20, Update 5 manual invalidTime)] (ClockHandler_ctor 0) =
       Some \<lparr>m_clocks = [(manual, \<lparr>priority = 0, systemOffset = 5, lastUpdate = 20\<rparr>),
                          (micom, \<lparr>priority = 1, systemOffset = 7,
                                   lastUpdate = invalidTime\<rparr>)],
             m_manualOverride = False\<rparr>
   \<and> fst (update 50 9 manual 40
       \<lparr>m_clocks = [(manual, \<lparr>priority = 0, systemOffset = 5, lastUpdate = 20\<rparr>),
                    (micom, \<lparr>priority = 1, systemOffset = 7, lastUpdate = invalidTime\<rparr>)],
        m_manualOverride = False\<rparr>)"
proof -
  have s: "step 30 (Adjust 60)
     \<lparr>m_clocks = [(manual, \<lparr>priority = 0, systemOffset = 5, lastUpdate = 20\<rparr>)],
      m_manualOverride = False\<rparr> =
     Some \<lparr>m_clocks = [(manual, \<lparr>priority = 0, systemOffset = - 55, lastUpdate = 80\<rparr>)],
           m_manualOverride = False\<rparr>"
    by (simp add: adjust_def adjust_clock_def invalidOffset_def invalidTime_def)
  have r: "run [(10, Setup micom 1 7), (20, Update 5 manual invalidTime)]
       (ClockHandler_ctor 0) =
       Some \<lparr>m_clocks = [(manual, \<lparr>priority = 0, systemOffset = 5, lastUpdate = 20\<rparr>),
                          (micom, \<lparr>priority = 1, systemOffset = 7,
                                   lastUpdate = invalidTime\<rparr>)],
             m_manualOverride = False\<rparr>"
    by (simp add: ctor_eq setup_clock_def update_def store_update_def manual_def micom_def)
  show ?thesis
    using s r
      manual_always_registered [where ?t0.0 = 0 and now = 30 and c = "Adjust 60"
         and t = manual
         and h = "\<lparr>m_clocks = [(manual, \<lparr>priority = 0, systemOffset = 5,
              lastUpdate = 20\<rparr>)], m_manualOverride = False\<rparr>"
         and h' = "\<lparr>m_clocks = [(manual, \<lparr>priority = 0, systemOffset = - 55,
              lastUpdate = 80\<rparr>)], m_manualOverride = False\<rparr>"
         and calls = "[(10, Setup micom 1 7), (20, Update 5 manual invalidTime)]"
         and hr = "\<lparr>m_clocks = [(manual, \<lparr>priority = 0, systemOffset = 5,
              lastUpdate = 20\<rparr>), (micom, \<lparr>priority = 1, systemOffset = 7,
              lastUpdate = invalidTime\<rparr>)], m_manualOverride = False\<rparr>"
         and now' = 50 and off = 9 and timeStamp = 40]
    by simp
qed

end
